theory Spec2Isabelle
  imports Main "HOL-Library.Sublist"
begin

section \<open>Data model of \<open>src/secure/agent.ts\<close>\<close>

text \<open>
  \<^verbatim>\<open>export type Message = { role: "user" | "assistant"; content: string; };\<close>
\<close>

datatype Role = User | Assistant

record Message =
  role :: Role
  content :: string

text \<open>
  \<^verbatim>\<open>export type AgentResponse = { text: string; usage?: { inputTokens: number; outputTokens: number; }; };\<close>
  The field \<open>text\<close> is written \<open>text'\<close>.
\<close>

record Usage =
  inputTokens :: int
  outputTokens :: int

record AgentResponse =
  text' :: string
  usage :: "Usage option"

text \<open>
  A promise, as its awaiter sees it: fulfilled with a value, rejected with the thrown
  value, or never settled (nothing in this file sets a deadline).
\<close>

datatype ('e, 'a) promise = Fulfilled 'a | Rejected 'e | Pending

text \<open>
  JavaScript throws any value, and \<open>catch (err)\<close> binds any value.
  \<open>err instanceof Error\<close> separates the instances of \<open>Error\<close>, which carry a \<open>message\<close>
  (a string, as the language's library declares it) beside the rest of the object, from
  every other value.

  \<open>String(err)\<close>, the language's conversion, is a parameter of the model. It is not total:
  on a value with no usable \<open>toString\<close> (\<open>Object.create(null)\<close>), or one whose \<open>toString\<close>
  throws, the conversion throws, \<open>Inl\<close> the value thrown; otherwise it returns a string.
\<close>

datatype 'v thrown = ErrorObject string 'v | NonError 'v

text \<open>\<open>err instanceof Error ? err.message : String(err)\<close>\<close>

fun error_text :: "('v \<Rightarrow> 'v thrown + string) \<Rightarrow> 'v thrown \<Rightarrow> 'v thrown + string" where
  "error_text String (ErrorObject message _) = Inr message"
| "error_text String (NonError err) = String err"

text \<open>
  \<open>x || d\<close> for \<open>x\<close> of type \<open>string | undefined | null\<close>: the empty string is falsy,
  as \<open>undefined\<close> and \<open>null\<close> are.
\<close>

definition or_else :: "string option \<Rightarrow> string \<Rightarrow> string" where
  "or_else x d = (case x of None \<Rightarrow> d | Some s \<Rightarrow> if s = [] then d else s)"

text \<open>
  Modelled from the spec: \<open>SecureConfig\<close> of \<open>./config.js\<close> is not among the sources;
  the spec gives the part this file reads as
  \<open>{ai: {provider: "anthropic"|other, apiKey: string, model?: string}}\<close>.
\<close>

record AIConfig =
  ai_provider :: string
  ai_apiKey :: string
  ai_model :: "string option"

record SecureConfig =
  ai :: AIConfig

text \<open>
  Modelled from the spec: \<open>AuditLogger\<close> of \<open>./audit.js\<close> is not among the sources; the
  spec gives it as a sink exposing \<open>error(record: {error: string})\<close>. The sink's state is
  the sequence of calls it has received.
\<close>

record AuditRecord =
  error :: string

datatype audit_call = Audit_error AuditRecord

type_synonym audit_sink = "audit_call list"

definition audit_error :: "AuditRecord \<Rightarrow> audit_sink \<Rightarrow> audit_sink" where
  "audit_error r audit = audit @ [Audit_error r]"

subsection \<open>The provider SDKs\<close>

text \<open>
  The two SDK clients are parameters. A client is built from the API key; its endpoint
  takes the request and the state \<open>'w\<close> of the world beyond the process (the network,
  the provider) and returns how the promise settles and the world after the call.

  Only the fields of the requests and responses that this file writes or reads are
  kept. A content block of the Anthropic response is a text block or one of the other
  variants of the SDK's union.
\<close>

record AnthropicRequest =
  an_model :: string
  an_max_tokens :: int
  an_system :: string
  an_messages :: "Message list"

datatype ContentBlock = TextBlock string | ToolUseBlock string string | ThinkingBlock string

record AnthropicUsage =
  input_tokens :: int
  output_tokens :: int

record AnthropicResponse =
  an_content :: "ContentBlock list"
  an_usage :: AnthropicUsage

datatype ChatRole = RoleSystem | RoleUser | RoleAssistant

record ChatMessageParam =
  oa_role :: ChatRole
  oa_content :: string

record OpenAIRequest =
  oa_model :: string
  oa_max_tokens :: int
  oa_messages :: "ChatMessageParam list"

record ChatCompletionMessage =
  message_content :: "string option"

record Choice =
  choice_message :: "ChatCompletionMessage option"

record CompletionUsage =
  prompt_tokens :: int
  completion_tokens :: int

record ChatCompletion =
  choices :: "Choice list"
  oa_usage :: "CompletionUsage option"

text \<open>
  A fulfilled call carries what the SDK made of the provider's answer, and nothing
  checks it against the declared response type. The lines after the \<open>await\<close> read it
  as a value of that type, inside the same \<open>try\<close>: on a body that lacks a property they
  read through (\<open>content\<close> or \<open>usage\<close> on the Anthropic path, \<open>choices\<close> on the OpenAI
  path) the read throws a \<open>TypeError\<close>. \<open>Typed r\<close> is a body of the declared type;
  \<open>Untyped t\<close> is a body on which those reads throw \<open>t\<close>. Bodies outside the declared type
  that the reads get through are not modelled.
\<close>

datatype ('v, 'resp) body = Typed 'resp | Untyped "'v thrown"

type_synonym ('v, 'w, 'req, 'resp) sdk =
  "string \<Rightarrow> 'req \<Rightarrow> 'w \<Rightarrow> ('v thrown, ('v, 'resp) body) promise \<times> 'w"

subsection \<open>The agent\<close>

datatype provider_tag = anthropic | openai

text \<open>
  \<open>chat\<close> takes, beside its two arguments, the state of the audit sink and of the world,
  and returns them with the way its promise settles.
\<close>

record ('v, 'w) AgentCore =
  chat :: "Message list \<Rightarrow> string option \<Rightarrow> audit_sink \<Rightarrow> 'w \<Rightarrow>
            ('v thrown, AgentResponse) promise \<times> audit_sink \<times> 'w"
  provider :: provider_tag

definition DEFAULT_ANTHROPIC_MODEL :: string where
  "DEFAULT_ANTHROPIC_MODEL = ''claude-sonnet-4-20250514''"

definition DEFAULT_OPENAI_MODEL :: string where
  "DEFAULT_OPENAI_MODEL = ''gpt-4o''"

definition newline :: string where
  "newline = [CHR 0x0A]"

definition DEFAULT_SYSTEM_PROMPT :: string where
  "DEFAULT_SYSTEM_PROMPT =
     ''You are a helpful AI assistant running as a secure, self-hosted bot.'' @ newline @
     newline @
     ''You are direct, concise, and helpful. You can:'' @ newline @
     ''- Answer questions and have conversations'' @ newline @
     ''- Analyze images and documents shared with you'' @ newline @
     ''- Help with coding and technical tasks'' @ newline @
     ''- Summarize content and extract information'' @ newline @
     newline @
     ''When you receive webhook notifications, summarize them helpfully for the user.'' @ newline @
     newline @
     ''Be security-conscious:'' @ newline @
     ''- Never reveal API keys, tokens, or secrets'' @ newline @
     ''- Don't execute commands that could harm the system'' @ newline @
     ''- Warn users about potentially dangerous operations''"

text \<open>
  \<open>block.type === "text"\<close>, the property read \<open>block.text\<close> (\<open>undefined\<close> on a block
  without the property) and \<open>Array.prototype.join\<close>, which renders \<open>undefined\<close> as the
  empty string.
\<close>

fun block_type :: "ContentBlock \<Rightarrow> string" where
  "block_type (TextBlock _) = ''text''"
| "block_type (ToolUseBlock _ _) = ''tool_use''"
| "block_type (ThinkingBlock _) = ''thinking''"

fun block_text :: "ContentBlock \<Rightarrow> string option" where
  "block_text (TextBlock t) = Some t"
| "block_text _ = None"

fun join :: "string \<Rightarrow> string option list \<Rightarrow> string" where
  "join sep [] = []"
| "join sep [x] = (case x of None \<Rightarrow> [] | Some s \<Rightarrow> s)"
| "join sep (x # y # ys) = (case x of None \<Rightarrow> [] | Some s \<Rightarrow> s) @ sep @ join sep (y # ys)"

definition anthropic_request :: "string \<Rightarrow> Message list \<Rightarrow> string option \<Rightarrow> AnthropicRequest" where
  "anthropic_request model messages systemPrompt =
     \<lparr>an_model = model,
      an_max_tokens = 4096,
      an_system = or_else systemPrompt DEFAULT_SYSTEM_PROMPT,
      an_messages = map (\<lambda>m. \<lparr>role = role m, content = content m\<rparr>) messages\<rparr>"

definition anthropic_result :: "AnthropicResponse \<Rightarrow> AgentResponse" where
  "anthropic_result response =
     (let text = join newline
                   (map block_text (filter (\<lambda>block. block_type block = ''text'') (an_content response)))
      in \<lparr>text' = text,
          usage = Some \<lparr>inputTokens = input_tokens (an_usage response),
                        outputTokens = output_tokens (an_usage response)\<rparr>\<rparr>)"

text \<open>
  The \<open>try\<close> block, from the settled call on: it returns the result, throws (what the
  call was rejected with, or what reading the body throws), or never completes.
\<close>

definition anthropic_try ::
  "('v thrown, ('v, AnthropicResponse) body) promise \<Rightarrow> ('v thrown, AgentResponse) promise" where
  "anthropic_try settled =
     (case settled of
        Fulfilled (Typed response) \<Rightarrow> Fulfilled (anthropic_result response)
      | Fulfilled (Untyped err) \<Rightarrow> Rejected err
      | Rejected err \<Rightarrow> Rejected err
      | Pending \<Rightarrow> Pending)"

text \<open>
  In the \<open>catch\<close> block the argument of \<open>audit.error\<close> is evaluated before the call: when
  \<open>String(err)\<close> throws, nothing is written and what it threw leaves \<open>chat\<close>.
\<close>

definition createAnthropicAgent ::
  "('v, 'w, AnthropicRequest, AnthropicResponse) sdk \<Rightarrow> ('v \<Rightarrow> 'v thrown + string) \<Rightarrow>
     SecureConfig \<Rightarrow> ('v, 'w) AgentCore" where
  "createAnthropicAgent Anthropic String config =
     (let client = Anthropic (ai_apiKey (ai config));
          model = or_else (ai_model (ai config)) DEFAULT_ANTHROPIC_MODEL
      in \<lparr>chat = (\<lambda>messages systemPrompt audit w.
             case client (anthropic_request model messages systemPrompt) w of
               (settled, w') \<Rightarrow>
                 (case anthropic_try settled of
                    Fulfilled result \<Rightarrow> (Fulfilled result, audit, w')
                  | Rejected err \<Rightarrow>
                      (case error_text String err of
                         Inr text \<Rightarrow>
                           (Rejected err,
                            audit_error \<lparr>error = ''Anthropic API error: '' @ text\<rparr> audit,
                            w')
                       | Inl thrown_in_catch \<Rightarrow> (Rejected thrown_in_catch, audit, w'))
                  | Pending \<Rightarrow> (Pending, audit, w'))),
          provider = anthropic\<rparr>)"

text \<open>\<open>m.role as "user" | "assistant"\<close>\<close>

fun role_param :: "Role \<Rightarrow> ChatRole" where
  "role_param User = RoleUser"
| "role_param Assistant = RoleAssistant"

definition openai_request :: "string \<Rightarrow> Message list \<Rightarrow> string option \<Rightarrow> OpenAIRequest" where
  "openai_request model messages systemPrompt =
     \<lparr>oa_model = model,
      oa_max_tokens = 4096,
      oa_messages =
        \<lparr>oa_role = RoleSystem, oa_content = or_else systemPrompt DEFAULT_SYSTEM_PROMPT\<rparr> #
        map (\<lambda>m. \<lparr>oa_role = role_param (role m), oa_content = content m\<rparr>) messages\<rparr>"

text \<open>
  \<open>response.choices[0]?.message?.content\<close>: reading index 0 of an empty array gives
  \<open>undefined\<close>, and \<open>?.\<close> stops at \<open>undefined\<close> and \<open>null\<close>.
\<close>

definition first_content :: "ChatCompletion \<Rightarrow> string option" where
  "first_content response =
     (case choices response of
        [] \<Rightarrow> None
      | choice # _ \<Rightarrow> (case choice_message choice of None \<Rightarrow> None | Some m \<Rightarrow> message_content m))"

definition openai_result :: "ChatCompletion \<Rightarrow> AgentResponse" where
  "openai_result response =
     (let text = or_else (first_content response) []
      in \<lparr>text' = text,
          usage = (case oa_usage response of
                     Some u \<Rightarrow> Some \<lparr>inputTokens = prompt_tokens u,
                                     outputTokens = completion_tokens u\<rparr>
                   | None \<Rightarrow> None)\<rparr>)"

definition openai_try ::
  "('v thrown, ('v, ChatCompletion) body) promise \<Rightarrow> ('v thrown, AgentResponse) promise" where
  "openai_try settled =
     (case settled of
        Fulfilled (Typed response) \<Rightarrow> Fulfilled (openai_result response)
      | Fulfilled (Untyped err) \<Rightarrow> Rejected err
      | Rejected err \<Rightarrow> Rejected err
      | Pending \<Rightarrow> Pending)"

definition createOpenAIAgent ::
  "('v, 'w, OpenAIRequest, ChatCompletion) sdk \<Rightarrow> ('v \<Rightarrow> 'v thrown + string) \<Rightarrow>
     SecureConfig \<Rightarrow> ('v, 'w) AgentCore" where
  "createOpenAIAgent OpenAI String config =
     (let client = OpenAI (ai_apiKey (ai config));
          model = or_else (ai_model (ai config)) DEFAULT_OPENAI_MODEL
      in \<lparr>chat = (\<lambda>messages systemPrompt audit w.
             case client (openai_request model messages systemPrompt) w of
               (settled, w') \<Rightarrow>
                 (case openai_try settled of
                    Fulfilled result \<Rightarrow> (Fulfilled result, audit, w')
                  | Rejected err \<Rightarrow>
                      (case error_text String err of
                         Inr text \<Rightarrow>
                           (Rejected err,
                            audit_error \<lparr>error = ''OpenAI API error: '' @ text\<rparr> audit,
                            w')
                       | Inl thrown_in_catch \<Rightarrow> (Rejected thrown_in_catch, audit, w'))
                  | Pending \<Rightarrow> (Pending, audit, w'))),
          provider = openai\<rparr>)"

definition createAgent ::
  "('v, 'w, AnthropicRequest, AnthropicResponse) sdk \<Rightarrow>
   ('v, 'w, OpenAIRequest, ChatCompletion) sdk \<Rightarrow> ('v \<Rightarrow> 'v thrown + string) \<Rightarrow>
     SecureConfig \<Rightarrow> ('v, 'w) AgentCore" where
  "createAgent Anthropic OpenAI String config =
     (if ai_provider (ai config) = ''anthropic''
      then createAnthropicAgent Anthropic String config
      else createOpenAIAgent OpenAI String config)"

section \<open>The conversation store\<close>

text \<open>
  \<open>createConversationStore\<close> closes over one \<open>Map<number, Message[]>\<close>. The values of
  that map are references to JavaScript arrays: \<open>history.push\<close> and \<open>history.splice\<close>
  mutate the array in place and \<open>get\<close> hands out the live reference. The state is
  therefore the map from user ids to array addresses, the contents of every array
  allocated so far, and the next free address. An array literal \<open>[]\<close> allocates.

  Keys of a \<open>Map\<close> are compared with SameValueZero, an equivalence on numbers, so the
  key type is left abstract.
\<close>

type_synonym addr = nat

record 'u store_state =
  conversations :: "'u \<rightharpoonup> addr"
  arrays :: "addr \<Rightarrow> Message list"
  next_addr :: addr

definition MAX_HISTORY :: nat where
  "MAX_HISTORY = 20"

definition createConversationStore :: "'u store_state" where
  "createConversationStore =
     \<lparr>conversations = Map.empty, arrays = (\<lambda>_. []), next_addr = 0\<rparr>"

text \<open>The array literal \<open>[]\<close>: a fresh, empty array.\<close>

definition new_array :: "'u store_state \<Rightarrow> addr \<times> 'u store_state" where
  "new_array s =
     (next_addr s, s\<lparr>arrays := (arrays s)(next_addr s := []), next_addr := Suc (next_addr s)\<rparr>)"

text \<open>
  \<open>conversations.get(userId) || []\<close>: an array, even an empty one, is truthy, so the
  right operand is evaluated exactly when the key is absent.
\<close>

definition get_or_empty :: "'u store_state \<Rightarrow> 'u \<Rightarrow> addr \<times> 'u store_state" where
  "get_or_empty s userId =
     (case conversations s userId of
        Some history \<Rightarrow> (history, s)
      | None \<Rightarrow> new_array s)"

text \<open>\<open>get(userId)\<close> returns the reference; the state records the allocation, if any.\<close>

definition get :: "'u store_state \<Rightarrow> 'u \<Rightarrow> addr \<times> 'u store_state" where
  "get s userId = get_or_empty s userId"

text \<open>\<open>history.push(message)\<close>\<close>

definition push :: "addr \<Rightarrow> Message \<Rightarrow> 'u store_state \<Rightarrow> 'u store_state" where
  "push history message s = s\<lparr>arrays := (arrays s)(history := arrays s history @ [message])\<rparr>"

text \<open>\<open>history.splice(0, n)\<close> removes the first \<open>n\<close> elements in place.\<close>

definition splice0 :: "addr \<Rightarrow> nat \<Rightarrow> 'u store_state \<Rightarrow> 'u store_state" where
  "splice0 history n s = s\<lparr>arrays := (arrays s)(history := drop n (arrays s history))\<rparr>"

definition add :: "'u store_state \<Rightarrow> 'u \<Rightarrow> Message \<Rightarrow> 'u store_state" where
  "add s userId message =
     (case get_or_empty s userId of
        (history, s1) \<Rightarrow>
          let s2 = push history message s1;
              s3 = (if length (arrays s2 history) > MAX_HISTORY
                    then splice0 history (length (arrays s2 history) - MAX_HISTORY) s2
                    else s2)
          in s3\<lparr>conversations := (conversations s3)(userId \<mapsto> history)\<rparr>)"

definition clear :: "'u store_state \<Rightarrow> 'u \<Rightarrow> 'u store_state" where
  "clear s userId = s\<lparr>conversations := (conversations s)(userId := None)\<rparr>"

text \<open>The sequence a caller reads through the reference that \<open>get\<close> returns.\<close>

definition get_messages :: "'u store_state \<Rightarrow> 'u \<Rightarrow> Message list" where
  "get_messages s userId = (case get s userId of (history, s') \<Rightarrow> arrays s' history)"

text \<open>A caller's use of the store: any sequence of calls of its three methods.\<close>

datatype 'u call = Get 'u | Add 'u Message | Clear 'u

fun apply_call :: "'u store_state \<Rightarrow> 'u call \<Rightarrow> 'u store_state" where
  "apply_call s (Get userId) = snd (get s userId)"
| "apply_call s (Add userId message) = add s userId message"
| "apply_call s (Clear userId) = clear s userId"

definition run :: "'u call list \<Rightarrow> 'u store_state" where
  "run calls = foldl apply_call createConversationStore calls"

text \<open>The messages added for one user id, in call order.\<close>

fun added_for :: "'u \<Rightarrow> 'u call list \<Rightarrow> Message list" where
  "added_for u [] = []"
| "added_for u (Add v m # calls) = (if v = u then m # added_for u calls else added_for u calls)"
| "added_for u (_ # calls) = added_for u calls"

definition last_n :: "nat \<Rightarrow> 'a list \<Rightarrow> 'a list" where
  "last_n n xs = drop (length xs - n) xs"

text \<open>
  What the store maintains: every stored reference is allocated, and no two user ids
  hold the same array.
\<close>

definition store_inv :: "'u store_state \<Rightarrow> bool" where
  "store_inv s \<longleftrightarrow>
     (\<forall>u a. conversations s u = Some a \<longrightarrow> a < next_addr s) \<and>
     (\<forall>u v a. conversations s u = Some a \<longrightarrow> conversations s v = Some a \<longrightarrow> u = v)"

subsection \<open>Test doubles and example inputs\<close>

text \<open>
  Two stand-ins for an SDK, both settling every call the same given way: one counts the
  calls it receives, the other records the requests.
\<close>

definition counting_stub ::
  "('v thrown, ('v, 'resp) body) promise \<Rightarrow> ('v, nat, 'req, 'resp) sdk" where
  "counting_stub outcome apiKey request calls = (outcome, Suc calls)"

definition recording_transport ::
  "('v thrown, ('v, 'resp) body) promise \<Rightarrow> ('v, 'req list, 'req, 'resp) sdk" where
  "recording_transport outcome apiKey request captured = (outcome, captured @ [request])"

definition demo_config :: "string \<Rightarrow> string option \<Rightarrow> SecureConfig" where
  "demo_config p m = \<lparr>ai = \<lparr>ai_provider = p, ai_apiKey = ''sk-test'', ai_model = m\<rparr>\<rparr>"

definition demo_messages :: "Message list" where
  "demo_messages = [\<lparr>role = User, content = ''ping''\<rparr>, \<lparr>role = Assistant, content = ''pong''\<rparr>]"

text \<open>
  The thrown values of the examples carry \<open>undefined\<close> as their only other value, and
  \<open>String(undefined)\<close> is \<open>"undefined"\<close>.
\<close>

definition demo_String :: "unit \<Rightarrow> unit thrown + string" where
  "demo_String v = Inr ''undefined''"


text \<open>What reading \<open>response.usage.input_tokens\<close> throws on a body without \<open>usage\<close>.\<close>

definition no_usage_error :: "unit thrown" where
  "no_usage_error =
     ErrorObject ''Cannot read properties of undefined (reading 'input_tokens')'' ()"


definition hello_world :: AnthropicResponse where
  "hello_world =
     \<lparr>an_content = [TextBlock ''Hello'', ToolUseBlock ''toolu_01'' ''search'', TextBlock ''World''],
      an_usage = \<lparr>input_tokens = 12, output_tokens = 5\<rparr>\<rparr>"

definition hi_response :: ChatCompletion where
  "hi_response =
     \<lparr>choices = [\<lparr>choice_message = Some \<lparr>message_content = Some ''Hi''\<rparr>\<rparr>], oa_usage = None\<rparr>"

definition metered_response :: ChatCompletion where
  "metered_response =
     \<lparr>choices = [], oa_usage = Some \<lparr>prompt_tokens = 9, completion_tokens = 0\<rparr>\<rparr>"

definition msg :: "nat \<Rightarrow> Message" where
  "msg n = \<lparr>role = (if even n then User else Assistant), content = replicate n (CHR ''m'')\<rparr>"

definition demo_calls :: "nat call list" where
  "demo_calls =
     Add 7 (msg 0) # Get 9 # Add 8 (msg 100) # Clear 8 # map (\<lambda>n. Add 7 (msg n)) [1..<23]"

subsection \<open>The specification's wording of the two result texts\<close>

text \<open>
  The texts of the text-typed content blocks, in order, every other block left out,
  joined by a newline character.
\<close>

fun spec_text_blocks :: "ContentBlock list \<Rightarrow> string list" where
  "spec_text_blocks [] = []"
| "spec_text_blocks (TextBlock t # blocks) = t # spec_text_blocks blocks"
| "spec_text_blocks (_ # blocks) = spec_text_blocks blocks"

fun spec_joined_by_newline :: "string list \<Rightarrow> string" where
  "spec_joined_by_newline [] = []"
| "spec_joined_by_newline [t] = t"
| "spec_joined_by_newline (t # ts) = t @ CHR 0x0A # spec_joined_by_newline ts"

text \<open>
  The first completion choice's message content, or the empty string if that choice,
  message, or content is absent.
\<close>

definition spec_first_choice_text :: "ChatCompletion \<Rightarrow> string" where
  "spec_first_choice_text response =
     (case choices response of
        [] \<Rightarrow> []
      | choice # _ \<Rightarrow>
          (case choice_message choice of
             None \<Rightarrow> []
           | Some m \<Rightarrow> (case message_content m of None \<Rightarrow> [] | Some s \<Rightarrow> s)))"

section \<open>Properties of the conversation store\<close>

subsection \<open>The invariant\<close>

lemma store_inv_create: "store_inv createConversationStore"
  by (simp add: store_inv_def createConversationStore_def)

lemma store_inv_get: "store_inv s \<Longrightarrow> store_inv (snd (get s u))"
  by (auto simp: store_inv_def get_def get_or_empty_def new_array_def less_Suc_eq
      split: option.splits)

lemma store_inv_clear: "store_inv s \<Longrightarrow> store_inv (clear s u)"
  by (auto simp: store_inv_def clear_def split: if_splits)

lemma store_inv_add: "store_inv s \<Longrightarrow> store_inv (add s u m)"
  unfolding store_inv_def add_def get_or_empty_def new_array_def push_def splice0_def Let_def
  by (auto split: option.splits if_splits simp: less_Suc_eq)

lemma store_inv_apply_call: "store_inv s \<Longrightarrow> store_inv (apply_call s c)"
  by (cases c) (simp_all add: store_inv_get store_inv_add store_inv_clear)

lemma store_inv_foldl: "store_inv s \<Longrightarrow> store_inv (foldl apply_call s cs)"
  by (induction cs arbitrary: s) (simp_all add: store_inv_apply_call)

lemma store_inv_run: "store_inv (run cs)"
  by (simp add: run_def store_inv_foldl store_inv_create)

subsection \<open>What one call does to what \<open>get\<close> shows\<close>

lemma get_messages_create: "get_messages createConversationStore u = []"
  by (simp add: createConversationStore_def get_messages_def get_def get_or_empty_def
      new_array_def)

lemma get_messages_add_same:
  "store_inv s \<Longrightarrow> get_messages (add s u m) u = last_n MAX_HISTORY (get_messages s u @ [m])"
  unfolding store_inv_def add_def get_messages_def get_def get_or_empty_def new_array_def
    push_def splice0_def Let_def last_n_def
  by (auto split: option.splits if_splits)

lemma get_messages_add_other:
  "store_inv s \<Longrightarrow> u \<noteq> v \<Longrightarrow> get_messages (add s u m) v = get_messages s v"
  unfolding store_inv_def add_def get_messages_def get_def get_or_empty_def new_array_def
    push_def splice0_def Let_def
  by (auto split: option.splits if_splits)

lemma get_messages_clear_same: "get_messages (clear s u) u = []"
  by (simp add: get_messages_def get_def get_or_empty_def new_array_def clear_def)

lemma get_messages_clear_other: "u \<noteq> v \<Longrightarrow> get_messages (clear s u) v = get_messages s v"
  by (simp add: get_messages_def get_def get_or_empty_def new_array_def clear_def
      split: option.splits)

lemma get_messages_get: "store_inv s \<Longrightarrow> get_messages (snd (get s v)) u = get_messages s u"
  unfolding store_inv_def get_messages_def get_def get_or_empty_def new_array_def
  by (auto split: option.splits)

subsection \<open>The window of the last twenty\<close>

lemma last_n_snoc: "last_n n (last_n n xs @ [x]) = last_n n (xs @ [x])"
  by (cases "length xs \<le> n") (auto simp: last_n_def Suc_diff_le)

lemma length_last_n: "length (last_n n xs) = min (length xs) n"
  by (simp add: last_n_def)

lemma added_for_append: "added_for u (cs @ ds) = added_for u cs @ added_for u ds"
  by (induction u cs rule: added_for.induct) simp_all

lemma run_snoc: "run (cs @ [c]) = apply_call (run cs) c"
  by (simp add: run_def)

lemma get_messages_run:
  "Clear u \<notin> set calls \<Longrightarrow>
     get_messages (run calls) u = last_n MAX_HISTORY (added_for u calls)"
proof (induction calls rule: rev_induct)
  case Nil
  show ?case
    by (simp add: run_def get_messages_create last_n_def)
next
  case (snoc c cs)
  then have IH: "get_messages (run cs) u = last_n MAX_HISTORY (added_for u cs)" by simp
  from snoc.prems have nc: "c \<noteq> Clear u" by auto
  show ?case
  proof (cases c)
    case (Get v)
    then show ?thesis
      by (simp add: run_snoc added_for_append get_messages_get store_inv_run IH)
  next
    case (Add v m)
    then show ?thesis
      by (cases "v = u")
        (simp_all add: run_snoc added_for_append get_messages_add_same get_messages_add_other
          store_inv_run IH last_n_snoc)
  next
    case (Clear v)
    with nc have "v \<noteq> u" by simp
    with Clear show ?thesis
      by (simp add: run_snoc added_for_append get_messages_clear_other IH)
  qed
qed

text \<open>
  C1. Take any sequence of calls of the store in which the id \<open>u\<close> is never cleared
  (calls for other ids and calls of \<open>get\<close> may come in between). After it, the sequence
  stored for \<open>u\<close> is the last 20 of the messages added for \<open>u\<close>, in the order they were
  added, and its length is the smaller of 20 and the number of those adds. As the
  sequence of calls is arbitrary, this holds after each add.
\<close>

theorem add_keeps_last_20:
  "Clear u \<notin> set calls \<Longrightarrow>
     get_messages (run calls) u = last_n 20 (added_for u calls) \<and>
     length (get_messages (run calls) u) = min (length (added_for u calls)) 20"
  using get_messages_run [of u calls] by (simp add: MAX_HISTORY_def length_last_n)

theorem add_keeps_last_20_witness:
  "Clear 7 \<notin> set demo_calls \<and>
   get_messages (run demo_calls) 7 = map msg [3..<23] \<and>
   length (get_messages (run demo_calls) 7) = 20"
proof -
  have h: "Clear 7 \<notin> set demo_calls"
    by (auto simp: demo_calls_def)
  have a: "added_for 7 demo_calls = map msg [0..<23]"
    by (simp add: demo_calls_def upt_rec)
  show ?thesis
    using h add_keeps_last_20 [OF h] by (simp add: a last_n_def drop_map)
qed

subsection \<open>Unknown and cleared ids\<close>

lemma get_messages_stays_empty:
  "store_inv s \<Longrightarrow> get_messages s u = [] \<Longrightarrow> \<forall>m. Add u m \<notin> set cs \<Longrightarrow>
     get_messages (foldl apply_call s cs) u = []"
proof (induction cs arbitrary: s)
  case Nil
  then show ?case by simp
next
  case (Cons c cs)
  have "get_messages (apply_call s c) u = []"
  proof (cases c)
    case (Get v)
    with Cons.prems show ?thesis by (simp add: get_messages_get)
  next
    case (Add v m)
    with Cons.prems have "v \<noteq> u" by auto
    with Add Cons.prems show ?thesis by (simp add: get_messages_add_other)
  next
    case (Clear v)
    with Cons.prems show ?thesis
      by (cases "v = u") (simp_all add: get_messages_clear_same get_messages_clear_other)
  qed
  moreover have "store_inv (apply_call s c)"
    using Cons.prems(1) by (rule store_inv_apply_call)
  moreover have "\<forall>m. Add u m \<notin> set cs" using Cons.prems(3) by simp
  ultimately show ?case using Cons.IH by simp
qed

lemma run_append_clear:
  "run (before @ Clear u # after) = foldl apply_call (clear (run before) u) after"
  by (simp add: run_def)

text \<open>
  C6. If no call in \<open>calls\<close> adds a message for \<open>u\<close>, then \<open>get\<close> for \<open>u\<close> shows the empty
  sequence after \<open>calls\<close> run on a new store; \<open>clear\<close> for \<open>u\<close>, after any calls at all,
  removes the entry of \<open>u\<close> from the map, so that \<open>get\<close> shows the empty sequence right
  after it, and still does after \<open>calls\<close>, as long as nothing is added for \<open>u\<close>.
\<close>

theorem get_is_empty_without_add_and_after_clear:
  "\<forall>m. Add u m \<notin> set calls \<Longrightarrow>
     get_messages (run calls) u = [] \<and>
     get_messages (clear (run before) u) u = [] \<and>
     conversations (clear (run before) u) u = None \<and>
     get_messages (run (before @ Clear u # calls)) u = []"
proof (intro conjI)
  assume h: "\<forall>m. Add u m \<notin> set calls"
  show "get_messages (run calls) u = []"
    unfolding run_def
    using store_inv_create get_messages_create h by (rule get_messages_stays_empty)
  show "get_messages (clear (run before) u) u = []"
    by (rule get_messages_clear_same)
  show "conversations (clear (run before) u) u = None"
    by (simp add: clear_def)
  show "get_messages (run (before @ Clear u # calls)) u = []"
    unfolding run_append_clear
    using store_inv_clear [OF store_inv_run] get_messages_clear_same h
    by (rule get_messages_stays_empty)
qed

theorem get_is_empty_witness:
  "(\<forall>m. Add (7::nat) m \<notin> set [Get 7, Add 8 (msg 1), Clear 8]) \<and>
   get_messages (run [Get 7, Add 8 (msg 1), Clear 8]) (7::nat) = [] \<and>
   get_messages (clear (run demo_calls) 7) 7 = [] \<and>
   conversations (clear (run demo_calls) 7) 7 = None \<and>
   get_messages (run (demo_calls @ Clear 7 # [Get 7, Add 8 (msg 1), Clear 8])) 7 = []"
proof -
  have h: "\<forall>m. Add (7::nat) m \<notin> set [Get 7, Add 8 (msg 1), Clear 8]" by simp
  show ?thesis
    using h get_is_empty_without_add_and_after_clear [OF h, of demo_calls] by blast
qed

subsection \<open>Other users\<close>

text \<open>
  C9. In any state the store can reach, \<open>add\<close> and \<open>clear\<close> for an id \<open>u\<close> leave what \<open>get\<close>
  shows for every other id \<open>v\<close> as it was.
\<close>

theorem other_users_unchanged:
  "u \<noteq> v \<Longrightarrow>
     get_messages (add (run calls) u m) v = get_messages (run calls) v \<and>
     get_messages (clear (run calls) u) v = get_messages (run calls) v"
  by (simp add: get_messages_add_other get_messages_clear_other store_inv_run)

theorem other_users_unchanged_witness:
  "(7::nat) \<noteq> 8 \<and>
   get_messages (add (run [Add 8 (msg 1), Add 7 (msg 2), Add 8 (msg 3)]) 7 (msg 4)) (8::nat)
     = [msg 1, msg 3] \<and>
   get_messages (clear (run [Add 8 (msg 1), Add 7 (msg 2), Add 8 (msg 3)]) 7) (8::nat)
     = [msg 1, msg 3]"
proof -
  have h: "(7::nat) \<noteq> 8" by simp
  have d: "get_messages (run [Add 8 (msg 1), Add 7 (msg 2), Add 8 (msg 3)]) (8::nat)
             = [msg 1, msg 3]"
    by (simp add: run_def createConversationStore_def get_messages_def get_def get_or_empty_def
        new_array_def add_def push_def splice0_def MAX_HISTORY_def)
  show ?thesis
    using h other_users_unchanged [OF h, of "[Add 8 (msg 1), Add 7 (msg 2), Add 8 (msg 3)]" "msg 4"] d
    by simp
qed

section \<open>Properties of the agent\<close>

subsection \<open>What \<open>chat\<close> does with the provider's answer\<close>

lemma chat_anthropic:
  "chat (createAnthropicAgent Anthropic String config) messages systemPrompt audit w =
     (case Anthropic (ai_apiKey (ai config))
             (anthropic_request (or_else (ai_model (ai config)) DEFAULT_ANTHROPIC_MODEL)
                messages systemPrompt) w of
        (settled, w') \<Rightarrow>
          (case anthropic_try settled of
             Fulfilled result \<Rightarrow> (Fulfilled result, audit, w')
           | Rejected err \<Rightarrow>
               (case error_text String err of
                  Inr text \<Rightarrow>
                    (Rejected err,
                     audit @ [Audit_error \<lparr>error = ''Anthropic API error: '' @ text\<rparr>], w')
                | Inl thrown_in_catch \<Rightarrow> (Rejected thrown_in_catch, audit, w'))
           | Pending \<Rightarrow> (Pending, audit, w')))"
  by (simp add: createAnthropicAgent_def Let_def audit_error_def
      split: prod.splits promise.splits sum.splits)

lemma chat_openai:
  "chat (createOpenAIAgent OpenAI String config) messages systemPrompt audit w =
     (case OpenAI (ai_apiKey (ai config))
             (openai_request (or_else (ai_model (ai config)) DEFAULT_OPENAI_MODEL)
                messages systemPrompt) w of
        (settled, w') \<Rightarrow>
          (case openai_try settled of
             Fulfilled result \<Rightarrow> (Fulfilled result, audit, w')
           | Rejected err \<Rightarrow>
               (case error_text String err of
                  Inr text \<Rightarrow>
                    (Rejected err,
                     audit @ [Audit_error \<lparr>error = ''OpenAI API error: '' @ text\<rparr>], w')
                | Inl thrown_in_catch \<Rightarrow> (Rejected thrown_in_catch, audit, w'))
           | Pending \<Rightarrow> (Pending, audit, w')))"
  by (simp add: createOpenAIAgent_def Let_def audit_error_def
      split: prod.splits promise.splits sum.splits)

lemma chat_anthropic_typed:
  "Anthropic (ai_apiKey (ai config))
     (anthropic_request (or_else (ai_model (ai config)) DEFAULT_ANTHROPIC_MODEL) messages systemPrompt) w
     = (Fulfilled (Typed response), w') \<Longrightarrow>
   chat (createAnthropicAgent Anthropic String config) messages systemPrompt audit w =
     (Fulfilled (anthropic_result response), audit, w')"
  by (simp add: chat_anthropic anthropic_try_def)

lemma chat_openai_typed:
  "OpenAI (ai_apiKey (ai config))
     (openai_request (or_else (ai_model (ai config)) DEFAULT_OPENAI_MODEL) messages systemPrompt) w
     = (Fulfilled (Typed response), w') \<Longrightarrow>
   chat (createOpenAIAgent OpenAI String config) messages systemPrompt audit w =
     (Fulfilled (openai_result response), audit, w')"
  by (simp add: chat_openai openai_try_def)










subsection \<open>Result texts\<close>

lemma filter_map_text_blocks:
  "map block_text (filter (\<lambda>block. block_type block = ''text'') blocks) =
     map Some (spec_text_blocks blocks)"
  by (induction blocks rule: spec_text_blocks.induct) simp_all

lemma join_Some: "join newline (map Some ts) = spec_joined_by_newline ts"
  by (induction ts rule: spec_joined_by_newline.induct) (simp_all add: newline_def)

lemma anthropic_result_text:
  "text' (anthropic_result response) =
     spec_joined_by_newline (spec_text_blocks (an_content response))"
  by (simp add: anthropic_result_def filter_map_text_blocks join_Some)

text \<open>
  C3. On the Anthropic path, when the provider call is fulfilled with a body \<open>response\<close>
  of the declared type, \<open>chat\<close> is fulfilled with a result whose text is the texts of the
  text blocks of \<open>response\<close>, in order, joined by a newline, every other block left out.
\<close>

theorem anthropic_text_is_joined_text_blocks:
  "Anthropic (ai_apiKey (ai config))
     (anthropic_request (or_else (ai_model (ai config)) DEFAULT_ANTHROPIC_MODEL) messages systemPrompt) w
     = (Fulfilled (Typed response), w') \<Longrightarrow>
   \<exists>r. fst (chat (createAnthropicAgent Anthropic String config) messages systemPrompt audit w)
         = Fulfilled r \<and>
       text' r = spec_joined_by_newline (spec_text_blocks (an_content response))"
  by (simp add: chat_anthropic_typed anthropic_result_text)

theorem anthropic_text_witness:
  "counting_stub (Fulfilled (Typed hello_world)) (ai_apiKey (ai (demo_config ''anthropic'' None)))
     (anthropic_request (or_else (ai_model (ai (demo_config ''anthropic'' None))) DEFAULT_ANTHROPIC_MODEL)
        demo_messages None) 0
     = (Fulfilled (Typed hello_world) :: (unit thrown, (unit, AnthropicResponse) body) promise, 1) \<and>
   (\<exists>r. fst (chat (createAnthropicAgent (counting_stub (Fulfilled (Typed hello_world))) demo_String
                 (demo_config ''anthropic'' None)) demo_messages None [] 0) = Fulfilled r \<and>
        text' r = ''Hello'' @ [CHR 0x0A] @ ''World'')"
proof -
  have h: "counting_stub (Fulfilled (Typed hello_world)) (ai_apiKey (ai (demo_config ''anthropic'' None)))
     (anthropic_request (or_else (ai_model (ai (demo_config ''anthropic'' None))) DEFAULT_ANTHROPIC_MODEL)
        demo_messages None) 0
     = (Fulfilled (Typed hello_world) :: (unit thrown, (unit, AnthropicResponse) body) promise, 1)"
    by (simp add: counting_stub_def)
  have "\<exists>r. fst (chat (createAnthropicAgent (counting_stub (Fulfilled (Typed hello_world))) demo_String
                 (demo_config ''anthropic'' None)) demo_messages None [] 0) = Fulfilled r \<and>
        text' r = ''Hello'' @ [CHR 0x0A] @ ''World''"
    using anthropic_text_is_joined_text_blocks
        [where Anthropic = "counting_stub (Fulfilled (Typed hello_world))" and String = demo_String
           and audit = "[]", OF h]
    by (simp add: hello_world_def)
  with h show ?thesis by (rule conjI)
qed

lemma openai_result_text: "text' (openai_result response) = spec_first_choice_text response"
  by (simp add: openai_result_def first_content_def spec_first_choice_text_def or_else_def
      split: list.splits option.splits)

lemma openai_result_usage:
  "usage (openai_result response) =
     map_option (\<lambda>u. \<lparr>inputTokens = prompt_tokens u, outputTokens = completion_tokens u\<rparr>)
       (oa_usage response)"
  by (simp add: openai_result_def split: option.splits)

text \<open>
  C4. On the OpenAI path, when the provider call is fulfilled with a body \<open>response\<close> of
  the declared type, \<open>chat\<close> is fulfilled with a result whose text is the content of the message of the first choice,
  or the empty string if the choice, the message or the content is absent; whose usage
  is absent exactly when \<open>response\<close> has none; and whose usage, when present, holds the
  provider's \<open>prompt_tokens\<close> and \<open>completion_tokens\<close>.
\<close>

theorem openai_text_and_usage:
  "OpenAI (ai_apiKey (ai config))
     (openai_request (or_else (ai_model (ai config)) DEFAULT_OPENAI_MODEL) messages systemPrompt) w
     = (Fulfilled (Typed response), w') \<Longrightarrow>
   \<exists>r. fst (chat (createOpenAIAgent OpenAI String config) messages systemPrompt audit w)
         = Fulfilled r \<and>
       text' r = spec_first_choice_text response \<and>
       (usage r = None) = (oa_usage response = None) \<and>
       usage r =
         map_option (\<lambda>u. \<lparr>inputTokens = prompt_tokens u, outputTokens = completion_tokens u\<rparr>)
           (oa_usage response)"
  by (simp add: chat_openai_typed openai_result_text openai_result_usage)

theorem openai_text_and_usage_witness:
  "counting_stub (Fulfilled (Typed hi_response)) (ai_apiKey (ai (demo_config ''openai'' None)))
     (openai_request (or_else (ai_model (ai (demo_config ''openai'' None))) DEFAULT_OPENAI_MODEL)
        demo_messages None) 0
     = (Fulfilled (Typed hi_response) :: (unit thrown, (unit, ChatCompletion) body) promise, 1) \<and>
   (\<exists>r. fst (chat (createOpenAIAgent (counting_stub (Fulfilled (Typed hi_response))) demo_String
                 (demo_config ''openai'' None)) demo_messages None [] 0) = Fulfilled r \<and>
        text' r = ''Hi'' \<and> usage r = None) \<and>
   (\<exists>r. fst (chat (createOpenAIAgent (counting_stub (Fulfilled (Typed metered_response))) demo_String
                 (demo_config ''openai'' None)) demo_messages None [] 0) = Fulfilled r \<and>
        text' r = [] \<and> usage r = Some \<lparr>inputTokens = 9, outputTokens = 0\<rparr>)"
proof -
  have h: "counting_stub (Fulfilled (Typed hi_response)) (ai_apiKey (ai (demo_config ''openai'' None)))
     (openai_request (or_else (ai_model (ai (demo_config ''openai'' None))) DEFAULT_OPENAI_MODEL)
        demo_messages None) 0
     = (Fulfilled (Typed hi_response) :: (unit thrown, (unit, ChatCompletion) body) promise, 1)"
    by (simp add: counting_stub_def)
  have h': "counting_stub (Fulfilled (Typed metered_response)) (ai_apiKey (ai (demo_config ''openai'' None)))
     (openai_request (or_else (ai_model (ai (demo_config ''openai'' None))) DEFAULT_OPENAI_MODEL)
        demo_messages None) 0
     = (Fulfilled (Typed metered_response) :: (unit thrown, (unit, ChatCompletion) body) promise, 1)"
    by (simp add: counting_stub_def)
  have a: "\<exists>r. fst (chat (createOpenAIAgent (counting_stub (Fulfilled (Typed hi_response))) demo_String
                 (demo_config ''openai'' None)) demo_messages None [] 0) = Fulfilled r \<and>
        text' r = ''Hi'' \<and> usage r = None"
    using openai_text_and_usage
        [where OpenAI = "counting_stub (Fulfilled (Typed hi_response))" and String = demo_String
           and audit = "[]", OF h]
    by (auto simp: hi_response_def spec_first_choice_text_def)
  have b: "\<exists>r. fst (chat (createOpenAIAgent (counting_stub (Fulfilled (Typed metered_response))) demo_String
                 (demo_config ''openai'' None)) demo_messages None [] 0) = Fulfilled r \<and>
        text' r = [] \<and> usage r = Some \<lparr>inputTokens = 9, outputTokens = 0\<rparr>"
    using openai_text_and_usage
        [where OpenAI = "counting_stub (Fulfilled (Typed metered_response))" and String = demo_String
           and audit = "[]", OF h']
    by (auto simp: metered_response_def spec_first_choice_text_def)
  from h a b show ?thesis by blast
qed

subsection \<open>Choosing the provider\<close>

lemma provider_anthropic: "provider (createAnthropicAgent Anthropic String config) = anthropic"
  by (simp add: createAnthropicAgent_def Let_def)

lemma provider_openai: "provider (createOpenAIAgent OpenAI String config) = openai"
  by (simp add: createOpenAIAgent_def Let_def)

text \<open>
  C5. \<open>createAgent\<close> always returns an agent. Its tag is \<open>anthropic\<close> exactly when
  \<open>config.ai.provider\<close> is the string \<open>"anthropic"\<close> and \<open>openai\<close> for every other string;
  its \<open>chat\<close> is the one of \<open>createAnthropicAgent\<close> in the first case and the one of
  \<open>createOpenAIAgent\<close> in the second.
\<close>

theorem createAgent_branches_on_provider:
  "(provider (createAgent Anthropic OpenAI String config) = anthropic)
     = (ai_provider (ai config) = ''anthropic'') \<and>
   (provider (createAgent Anthropic OpenAI String config) = openai)
     = (ai_provider (ai config) \<noteq> ''anthropic'') \<and>
   chat (createAgent Anthropic OpenAI String config) =
     (if ai_provider (ai config) = ''anthropic''
      then chat (createAnthropicAgent Anthropic String config)
      else chat (createOpenAIAgent OpenAI String config))"
  by (simp add: createAgent_def provider_anthropic provider_openai)

theorem createAgent_branches_witness:
  "provider (createAgent (counting_stub (Fulfilled (Typed hello_world))) (counting_stub (Fulfilled (Typed hi_response)))
      demo_String (demo_config ''anthropic'' None)) = anthropic \<and>
   provider (createAgent (counting_stub (Fulfilled (Typed hello_world))) (counting_stub (Fulfilled (Typed hi_response)))
      demo_String (demo_config ''openai'' None)) = openai \<and>
   provider (createAgent (counting_stub (Fulfilled (Typed hello_world))) (counting_stub (Fulfilled (Typed hi_response)))
      demo_String (demo_config ''gemini'' None)) = openai \<and>
   chat (createAgent (counting_stub (Fulfilled (Typed hello_world))) (counting_stub (Fulfilled (Typed hi_response)))
      demo_String (demo_config ''gemini'' None)) =
     chat (createOpenAIAgent (counting_stub (Fulfilled (Typed hi_response))) demo_String
       (demo_config ''gemini'' None))"
  using
    createAgent_branches_on_provider [of "counting_stub (Fulfilled (Typed hello_world))"
      "counting_stub (Fulfilled (Typed hi_response))" demo_String "demo_config ''anthropic'' None"]
    createAgent_branches_on_provider [of "counting_stub (Fulfilled (Typed hello_world))"
      "counting_stub (Fulfilled (Typed hi_response))" demo_String "demo_config ''openai'' None"]
    createAgent_branches_on_provider [of "counting_stub (Fulfilled (Typed hello_world))"
      "counting_stub (Fulfilled (Typed hi_response))" demo_String "demo_config ''gemini'' None"]
  by (simp add: demo_config_def)

subsection \<open>The request that leaves\<close>

lemma anthropic_requests_sent:
  "snd (snd (chat (createAnthropicAgent (recording_transport outcome) String config)
               messages systemPrompt audit captured)) =
     captured @ [anthropic_request (or_else (ai_model (ai config)) DEFAULT_ANTHROPIC_MODEL)
                   messages systemPrompt]"
  by (simp add: chat_anthropic recording_transport_def
      split: promise.splits sum.splits)

lemma openai_requests_sent:
  "snd (snd (chat (createOpenAIAgent (recording_transport outcome) String config)
               messages systemPrompt audit captured)) =
     captured @ [openai_request (or_else (ai_model (ai config)) DEFAULT_OPENAI_MODEL)
                   messages systemPrompt]"
  by (simp add: chat_openai recording_transport_def
      split: promise.splits sum.splits)

text \<open>
  C7, as the code has it. The transport receives exactly one request per \<open>chat\<close>. Its
  model is the provider's default when \<open>config.ai.model\<close> is absent or the empty string,
  and \<open>config.ai.model\<close> when that is a non-empty string.
\<close>

theorem request_model_is_default_or_nonempty_config_model:
  "map an_model
     (snd (snd (chat (createAnthropicAgent (recording_transport outcome) String config)
                  messages systemPrompt audit captured))) =
     map an_model captured @
     [case ai_model (ai config) of
        None \<Rightarrow> ''claude-sonnet-4-20250514''
      | Some m \<Rightarrow> if m = [] then ''claude-sonnet-4-20250514'' else m] \<and>
   map oa_model
     (snd (snd (chat (createOpenAIAgent (recording_transport outcome') String' config)
                  messages systemPrompt audit captured'))) =
     map oa_model captured' @
     [case ai_model (ai config) of
        None \<Rightarrow> ''gpt-4o''
      | Some m \<Rightarrow> if m = [] then ''gpt-4o'' else m]"
  by (simp add: anthropic_requests_sent openai_requests_sent anthropic_request_def
      openai_request_def or_else_def DEFAULT_ANTHROPIC_MODEL_def DEFAULT_OPENAI_MODEL_def
      split: option.splits)

theorem request_model_witness:
  "map an_model
     (snd (snd (chat (createAnthropicAgent (recording_transport (Fulfilled (Typed hello_world)))
                        demo_String (demo_config ''anthropic'' None))
                  demo_messages None [] []))) = [''claude-sonnet-4-20250514''] \<and>
   map oa_model
     (snd (snd (chat (createOpenAIAgent (recording_transport (Fulfilled (Typed hi_response)))
                        demo_String (demo_config ''anthropic'' None))
                  demo_messages None [] []))) = [''gpt-4o''] \<and>
   map an_model
     (snd (snd (chat (createAnthropicAgent (recording_transport (Fulfilled (Typed hello_world)))
                        demo_String (demo_config ''anthropic'' (Some ''claude-3-haiku'')))
                  demo_messages None [] []))) = [''claude-3-haiku''] \<and>
   map oa_model
     (snd (snd (chat (createOpenAIAgent (recording_transport (Fulfilled (Typed hi_response)))
                        demo_String (demo_config ''anthropic'' (Some ''claude-3-haiku'')))
                  demo_messages None [] []))) = [''claude-3-haiku'']"
  using
    request_model_is_default_or_nonempty_config_model
      [of "Fulfilled (Typed hello_world)" demo_String "demo_config ''anthropic'' None"
          demo_messages None "[]" "[]" "Fulfilled (Typed hi_response)" demo_String "[]"]
    request_model_is_default_or_nonempty_config_model
      [of "Fulfilled (Typed hello_world)" demo_String "demo_config ''anthropic'' (Some ''claude-3-haiku'')"
          demo_messages None "[]" "[]" "Fulfilled (Typed hi_response)" demo_String "[]"]
  by (simp add: demo_config_def)

text \<open>
  C7, as the claim has it, fails where the model supplied is the empty string: the
  request carries the default model, not the one supplied.
\<close>

theorem empty_model_counterexample:
  "ai_model (ai (demo_config ''anthropic'' (Some []))) = Some [] \<and>
   map an_model
     (snd (snd (chat (createAnthropicAgent (recording_transport (Fulfilled (Typed hello_world)))
                        demo_String (demo_config ''anthropic'' (Some [])))
                  demo_messages None [] []))) = [''claude-sonnet-4-20250514''] \<and>
   map an_model
     (snd (snd (chat (createAnthropicAgent (recording_transport (Fulfilled (Typed hello_world)))
                        demo_String (demo_config ''anthropic'' (Some [])))
                  demo_messages None [] []))) \<noteq> [[]] \<and>
   map oa_model
     (snd (snd (chat (createOpenAIAgent (recording_transport (Fulfilled (Typed hi_response)))
                        demo_String (demo_config ''openai'' (Some [])))
                  demo_messages None [] []))) = [''gpt-4o''] \<and>
   map oa_model
     (snd (snd (chat (createOpenAIAgent (recording_transport (Fulfilled (Typed hi_response)))
                        demo_String (demo_config ''openai'' (Some [])))
                  demo_messages None [] []))) \<noteq> [[]]"
  by (simp add: anthropic_requests_sent openai_requests_sent anthropic_request_def
      openai_request_def or_else_def DEFAULT_ANTHROPIC_MODEL_def DEFAULT_OPENAI_MODEL_def
      demo_config_def)

subsection \<open>The audit sink on calls that do not fail\<close>

lemma anthropic_audit_cases:
  "(\<exists>r. chat (createAnthropicAgent Anthropic String config) messages systemPrompt audit w
          = (Fulfilled r, audit, snd (Anthropic (ai_apiKey (ai config))
               (anthropic_request (or_else (ai_model (ai config)) DEFAULT_ANTHROPIC_MODEL)
                  messages systemPrompt) w))) \<or>
   (\<exists>e a. chat (createAnthropicAgent Anthropic String config) messages systemPrompt audit w
          = (Rejected e, a, snd (Anthropic (ai_apiKey (ai config))
               (anthropic_request (or_else (ai_model (ai config)) DEFAULT_ANTHROPIC_MODEL)
                  messages systemPrompt) w))) \<or>
   chat (createAnthropicAgent Anthropic String config) messages systemPrompt audit w
          = (Pending, audit, snd (Anthropic (ai_apiKey (ai config))
               (anthropic_request (or_else (ai_model (ai config)) DEFAULT_ANTHROPIC_MODEL)
                  messages systemPrompt) w))"
  by (simp add: chat_anthropic split: prod.splits promise.splits sum.splits)

lemma openai_audit_cases:
  "(\<exists>r. chat (createOpenAIAgent OpenAI String config) messages systemPrompt audit w
          = (Fulfilled r, audit, snd (OpenAI (ai_apiKey (ai config))
               (openai_request (or_else (ai_model (ai config)) DEFAULT_OPENAI_MODEL)
                  messages systemPrompt) w))) \<or>
   (\<exists>e a. chat (createOpenAIAgent OpenAI String config) messages systemPrompt audit w
          = (Rejected e, a, snd (OpenAI (ai_apiKey (ai config))
               (openai_request (or_else (ai_model (ai config)) DEFAULT_OPENAI_MODEL)
                  messages systemPrompt) w))) \<or>
   chat (createOpenAIAgent OpenAI String config) messages systemPrompt audit w
          = (Pending, audit, snd (OpenAI (ai_apiKey (ai config))
               (openai_request (or_else (ai_model (ai config)) DEFAULT_OPENAI_MODEL)
                  messages systemPrompt) w))"
  by (simp add: chat_openai split: prod.splits promise.splits sum.splits)

text \<open>
  C8. On either path, a call of \<open>chat\<close> that completes successfully, that is, whose
  promise is fulfilled, leaves the audit sink as it found it; and whenever \<open>chat\<close> leaves
  the sink changed, \<open>chat\<close> was rejected: the sink is written only on failed calls. A call
  fails when the provider call is rejected and also when the provider call is fulfilled
  with a body that the lines after the \<open>await\<close> cannot read. When the provider call is
  fulfilled with a body of the declared type, \<open>chat\<close> is fulfilled and the sink unchanged.
\<close>

theorem no_audit_write_unless_chat_fails:
  "(fst (chat (createAnthropicAgent Anthropic String config) messages systemPrompt audit w)
      = Fulfilled r \<longrightarrow>
    fst (snd (chat (createAnthropicAgent Anthropic String config) messages systemPrompt audit w))
      = audit) \<and>
   (fst (chat (createOpenAIAgent OpenAI String config) messages systemPrompt audit w)
      = Fulfilled r' \<longrightarrow>
    fst (snd (chat (createOpenAIAgent OpenAI String config) messages systemPrompt audit w))
      = audit) \<and>
   (fst (snd (chat (createAnthropicAgent Anthropic String config) messages systemPrompt audit w))
      = audit \<or>
    (\<exists>e. fst (chat (createAnthropicAgent Anthropic String config) messages systemPrompt audit w)
      = Rejected e)) \<and>
   (fst (snd (chat (createOpenAIAgent OpenAI String config) messages systemPrompt audit w))
      = audit \<or>
    (\<exists>e. fst (chat (createOpenAIAgent OpenAI String config) messages systemPrompt audit w)
      = Rejected e)) \<and>
   (Anthropic (ai_apiKey (ai config))
      (anthropic_request (or_else (ai_model (ai config)) DEFAULT_ANTHROPIC_MODEL) messages systemPrompt) w
      = (Fulfilled (Typed response), w') \<longrightarrow>
    chat (createAnthropicAgent Anthropic String config) messages systemPrompt audit w
      = (Fulfilled (anthropic_result response), audit, w')) \<and>
   (OpenAI (ai_apiKey (ai config))
      (openai_request (or_else (ai_model (ai config)) DEFAULT_OPENAI_MODEL) messages systemPrompt) w
      = (Fulfilled (Typed response'), w') \<longrightarrow>
    chat (createOpenAIAgent OpenAI String config) messages systemPrompt audit w
      = (Fulfilled (openai_result response'), audit, w'))"
proof (intro conjI impI)
  assume "fst (chat (createAnthropicAgent Anthropic String config) messages systemPrompt audit w)
      = Fulfilled r"
  with anthropic_audit_cases [of Anthropic String config messages systemPrompt audit w]
  show "fst (snd (chat (createAnthropicAgent Anthropic String config) messages systemPrompt audit w))
      = audit"
    by auto
next
  assume "fst (chat (createOpenAIAgent OpenAI String config) messages systemPrompt audit w)
      = Fulfilled r'"
  with openai_audit_cases [of OpenAI String config messages systemPrompt audit w]
  show "fst (snd (chat (createOpenAIAgent OpenAI String config) messages systemPrompt audit w))
      = audit"
    by auto
next
  from anthropic_audit_cases [of Anthropic String config messages systemPrompt audit w]
  show "fst (snd (chat (createAnthropicAgent Anthropic String config) messages systemPrompt audit w))
      = audit \<or>
    (\<exists>e. fst (chat (createAnthropicAgent Anthropic String config) messages systemPrompt audit w)
      = Rejected e)"
    by auto
next
  from openai_audit_cases [of OpenAI String config messages systemPrompt audit w]
  show "fst (snd (chat (createOpenAIAgent OpenAI String config) messages systemPrompt audit w))
      = audit \<or>
    (\<exists>e. fst (chat (createOpenAIAgent OpenAI String config) messages systemPrompt audit w)
      = Rejected e)"
    by auto
next
  assume "Anthropic (ai_apiKey (ai config))
      (anthropic_request (or_else (ai_model (ai config)) DEFAULT_ANTHROPIC_MODEL) messages systemPrompt) w
      = (Fulfilled (Typed response), w')"
  then show "chat (createAnthropicAgent Anthropic String config) messages systemPrompt audit w
      = (Fulfilled (anthropic_result response), audit, w')"
    by (rule chat_anthropic_typed)
next
  assume "OpenAI (ai_apiKey (ai config))
      (openai_request (or_else (ai_model (ai config)) DEFAULT_OPENAI_MODEL) messages systemPrompt) w
      = (Fulfilled (Typed response'), w')"
  then show "chat (createOpenAIAgent OpenAI String config) messages systemPrompt audit w
      = (Fulfilled (openai_result response'), audit, w')"
    by (rule chat_openai_typed)
qed

theorem no_audit_write_witness:
  "counting_stub (Fulfilled (Typed hello_world)) (ai_apiKey (ai (demo_config ''anthropic'' None)))
      (anthropic_request (or_else (ai_model (ai (demo_config ''anthropic'' None))) DEFAULT_ANTHROPIC_MODEL)
         demo_messages None) 0
      = (Fulfilled (Typed hello_world) :: (unit thrown, (unit, AnthropicResponse) body) promise, 1) \<and>
   chat (createAnthropicAgent (counting_stub (Fulfilled (Typed hello_world))) demo_String
           (demo_config ''anthropic'' None))
      demo_messages None [Audit_error \<lparr>error = ''earlier''\<rparr>] 0
      = (Fulfilled (anthropic_result hello_world), [Audit_error \<lparr>error = ''earlier''\<rparr>], 1) \<and>
   counting_stub (Fulfilled (Typed hi_response)) (ai_apiKey (ai (demo_config ''anthropic'' None)))
      (openai_request (or_else (ai_model (ai (demo_config ''anthropic'' None))) DEFAULT_OPENAI_MODEL)
         demo_messages None) 0
      = (Fulfilled (Typed hi_response) :: (unit thrown, (unit, ChatCompletion) body) promise, 1) \<and>
   chat (createOpenAIAgent (counting_stub (Fulfilled (Typed hi_response))) demo_String
           (demo_config ''anthropic'' None))
      demo_messages None [Audit_error \<lparr>error = ''earlier''\<rparr>] 0
      = (Fulfilled (openai_result hi_response), [Audit_error \<lparr>error = ''earlier''\<rparr>], 1) \<and>
   fst (snd (chat (createAnthropicAgent (counting_stub (Fulfilled (Typed hello_world))) demo_String
                    (demo_config ''anthropic'' None))
               demo_messages None [Audit_error \<lparr>error = ''earlier''\<rparr>] 0))
      = [Audit_error \<lparr>error = ''earlier''\<rparr>] \<and>
   fst (snd (chat (createOpenAIAgent (counting_stub (Fulfilled (Typed hi_response))) demo_String
                    (demo_config ''anthropic'' None))
               demo_messages None [Audit_error \<lparr>error = ''earlier''\<rparr>] 0))
      = [Audit_error \<lparr>error = ''earlier''\<rparr>] \<and>
   chat (createAnthropicAgent (counting_stub (Fulfilled (Untyped no_usage_error))) demo_String
           (demo_config ''anthropic'' None))
      demo_messages None [Audit_error \<lparr>error = ''earlier''\<rparr>] 0
      = (Rejected no_usage_error,
         [Audit_error \<lparr>error = ''earlier''\<rparr>,
          Audit_error \<lparr>error =
            ''Anthropic API error: Cannot read properties of undefined (reading 'input_tokens')''\<rparr>],
         1)"
proof -
  have hA: "counting_stub (Fulfilled (Typed hello_world)) (ai_apiKey (ai (demo_config ''anthropic'' None)))
      (anthropic_request (or_else (ai_model (ai (demo_config ''anthropic'' None))) DEFAULT_ANTHROPIC_MODEL)
         demo_messages None) 0
      = (Fulfilled (Typed hello_world) :: (unit thrown, (unit, AnthropicResponse) body) promise, 1)"
    by (simp add: counting_stub_def)
  have hO: "counting_stub (Fulfilled (Typed hi_response)) (ai_apiKey (ai (demo_config ''anthropic'' None)))
      (openai_request (or_else (ai_model (ai (demo_config ''anthropic'' None))) DEFAULT_OPENAI_MODEL)
         demo_messages None) 0
      = (Fulfilled (Typed hi_response) :: (unit thrown, (unit, ChatCompletion) body) promise, 1)"
    by (simp add: counting_stub_def)
  note inst = no_audit_write_unless_chat_fails
    [where Anthropic = "counting_stub (Fulfilled (Typed hello_world))"
       and OpenAI = "counting_stub (Fulfilled (Typed hi_response))"
       and String = demo_String and config = "demo_config ''anthropic'' None"
       and messages = demo_messages and systemPrompt = None
       and audit = "[Audit_error \<lparr>error = ''earlier''\<rparr>]" and w = 0 and w' = 1
       and response = hello_world and response' = hi_response
       and r = "anthropic_result hello_world" and r' = "openai_result hi_response"]
  have cA: "chat (createAnthropicAgent (counting_stub (Fulfilled (Typed hello_world))) demo_String
           (demo_config ''anthropic'' None))
      demo_messages None [Audit_error \<lparr>error = ''earlier''\<rparr>] 0
      = (Fulfilled (anthropic_result hello_world), [Audit_error \<lparr>error = ''earlier''\<rparr>], 1)"
    using inst hA by blast
  have cO: "chat (createOpenAIAgent (counting_stub (Fulfilled (Typed hi_response))) demo_String
           (demo_config ''anthropic'' None))
      demo_messages None [Audit_error \<lparr>error = ''earlier''\<rparr>] 0
      = (Fulfilled (openai_result hi_response), [Audit_error \<lparr>error = ''earlier''\<rparr>], 1)"
    using inst hO by blast
  have aA: "fst (snd (chat (createAnthropicAgent (counting_stub (Fulfilled (Typed hello_world))) demo_String
                    (demo_config ''anthropic'' None))
               demo_messages None [Audit_error \<lparr>error = ''earlier''\<rparr>] 0))
      = [Audit_error \<lparr>error = ''earlier''\<rparr>]"
    using inst cA by simp
  have aO: "fst (snd (chat (createOpenAIAgent (counting_stub (Fulfilled (Typed hi_response))) demo_String
                    (demo_config ''anthropic'' None))
               demo_messages None [Audit_error \<lparr>error = ''earlier''\<rparr>] 0))
      = [Audit_error \<lparr>error = ''earlier''\<rparr>]"
    using inst cO by simp
  have u: "chat (createAnthropicAgent (counting_stub (Fulfilled (Untyped no_usage_error))) demo_String
           (demo_config ''anthropic'' None))
      demo_messages None [Audit_error \<lparr>error = ''earlier''\<rparr>] 0
      = (Rejected no_usage_error,
         [Audit_error \<lparr>error = ''earlier''\<rparr>,
          Audit_error \<lparr>error =
            ''Anthropic API error: Cannot read properties of undefined (reading 'input_tokens')''\<rparr>],
         1)"
    by (simp add: chat_anthropic anthropic_try_def counting_stub_def no_usage_error_def)
  from hA cA hO cO aA aO u show ?thesis by (intro conjI)
qed

subsection \<open>The empty system prompt\<close>

lemma DEFAULT_SYSTEM_PROMPT_not_empty: "DEFAULT_SYSTEM_PROMPT \<noteq> []"
  by (simp add: DEFAULT_SYSTEM_PROMPT_def)

lemma or_else_empty: "or_else (Some []) d = or_else None d"
  by (simp add: or_else_def)

lemma or_else_not_empty: "d \<noteq> [] \<Longrightarrow> or_else x d \<noteq> []"
  by (simp add: or_else_def split: option.splits)

text \<open>
  C10. On both paths \<open>chat\<close> with the empty string as \<open>systemPrompt\<close> does what \<open>chat\<close>
  without a \<open>systemPrompt\<close> does, and the request that leaves carries the default system
  prompt: as \<open>system\<close> on the Anthropic path, as the content of the leading message, of
  role \<open>system\<close>, on the OpenAI path. Whatever the \<open>systemPrompt\<close>, the system prompt
  that leaves is not the empty string.
\<close>

theorem empty_system_prompt_is_default:
  "chat (createAnthropicAgent Anthropic String config) messages (Some []) audit w =
     chat (createAnthropicAgent Anthropic String config) messages None audit w \<and>
   chat (createOpenAIAgent OpenAI String config) messages (Some []) audit w =
     chat (createOpenAIAgent OpenAI String config) messages None audit w \<and>
   map an_system
     (snd (snd (chat (createAnthropicAgent (recording_transport outcome) String' config)
                  messages (Some []) audit [])))
     = [DEFAULT_SYSTEM_PROMPT] \<and>
   map (\<lambda>request. hd (oa_messages request))
     (snd (snd (chat (createOpenAIAgent (recording_transport outcome') String'' config)
                  messages (Some []) audit [])))
     = [\<lparr>oa_role = RoleSystem, oa_content = DEFAULT_SYSTEM_PROMPT\<rparr>] \<and>
   map an_system
     (snd (snd (chat (createAnthropicAgent (recording_transport outcome) String' config)
                  messages systemPrompt audit [])))
     \<noteq> [[]] \<and>
   map (\<lambda>request. oa_content (hd (oa_messages request)))
     (snd (snd (chat (createOpenAIAgent (recording_transport outcome') String'' config)
                  messages systemPrompt audit [])))
     \<noteq> [[]]"
proof -
  have same_anthropic: "anthropic_request model messages (Some []) = anthropic_request model messages None"
    for model
    by (simp add: anthropic_request_def or_else_empty)
  have same_openai: "openai_request model messages (Some []) = openai_request model messages None"
    for model
    by (simp add: openai_request_def or_else_empty)
  have "chat (createAnthropicAgent Anthropic String config) messages (Some []) audit w =
     chat (createAnthropicAgent Anthropic String config) messages None audit w"
    by (simp only: chat_anthropic same_anthropic)
  moreover have "chat (createOpenAIAgent OpenAI String config) messages (Some []) audit w =
     chat (createOpenAIAgent OpenAI String config) messages None audit w"
    by (simp only: chat_openai same_openai)
  moreover have "map an_system
     (snd (snd (chat (createAnthropicAgent (recording_transport outcome) String' config)
                  messages (Some []) audit [])))
     = [DEFAULT_SYSTEM_PROMPT]"
    by (simp add: anthropic_requests_sent anthropic_request_def or_else_def)
  moreover have "map (\<lambda>request. hd (oa_messages request))
     (snd (snd (chat (createOpenAIAgent (recording_transport outcome') String'' config)
                  messages (Some []) audit [])))
     = [\<lparr>oa_role = RoleSystem, oa_content = DEFAULT_SYSTEM_PROMPT\<rparr>]"
    by (simp add: openai_requests_sent openai_request_def or_else_def)
  moreover have "map an_system
     (snd (snd (chat (createAnthropicAgent (recording_transport outcome) String' config)
                  messages systemPrompt audit [])))
     \<noteq> [[]]"
    by (simp add: anthropic_requests_sent anthropic_request_def or_else_not_empty
        DEFAULT_SYSTEM_PROMPT_not_empty)
  moreover have "map (\<lambda>request. oa_content (hd (oa_messages request)))
     (snd (snd (chat (createOpenAIAgent (recording_transport outcome') String'' config)
                  messages systemPrompt audit [])))
     \<noteq> [[]]"
    by (simp add: openai_requests_sent openai_request_def or_else_not_empty
        DEFAULT_SYSTEM_PROMPT_not_empty)
  ultimately show ?thesis by (intro conjI)
qed

end
